theory Spec2Isabelle
  imports Main "HOL-Library.Word"
begin

section \<open>metaser: mapping record fields to and from Kubernetes object metadata\<close>

subsection \<open>option.go: the explicit-optionality wrapper\<close>

text \<open>
  \<^verbatim>\<open>type Option[T any] struct { value T; isSet bool }\<close>.
  A panic of the Go code is the error value \<open>Inl\<close> of the model.
\<close>

record 'a Option =
  opt_value :: 'a
  isSet :: bool

datatype panic = Panic string

definition Some_opt :: "'a \<Rightarrow> 'a Option" where
  "Some_opt v = \<lparr>opt_value = v, isSet = True\<rparr>"

text \<open>\<^verbatim>\<open>None\<close> leaves \<^verbatim>\<open>value\<close> at the zero value of \<^verbatim>\<open>T\<close>, passed here as \<open>zero\<close>.\<close>

definition None_opt :: "'a \<Rightarrow> 'a Option" where
  "None_opt zero = \<lparr>opt_value = zero, isSet = False\<rparr>"

definition Get :: "'a Option \<Rightarrow> panic + 'a" where
  "Get s = (if isSet s then Inr (opt_value s) else Inl (Panic ''Option value is not set.''))"

definition GetOrDefault :: "'a Option \<Rightarrow> 'a \<Rightarrow> 'a" where
  "GetOrDefault s def = (if isSet s then opt_value s else def)"

definition IsSet :: "'a Option \<Rightarrow> bool" where
  "IsSet s = isSet s"

subsection \<open>Theorems\<close>

text \<open>
  C9: for every Option value, Get returns the contained value when the presence flag is
  set and panics when it is not; GetOrDefault never fails and returns the contained value
  when present and the supplied default when absent; when the presence flag is set the
  panic branch of Get is not taken.
\<close>

theorem C9_option_get:
  "(isSet s \<longrightarrow> Get s = Inr (opt_value s) \<and> GetOrDefault s d = opt_value s)
   \<and> (\<not> isSet s \<longrightarrow> Get s = Inl (Panic ''Option value is not set.'') \<and> GetOrDefault s d = d)
   \<and> (isSet s \<longrightarrow> (\<forall>p. Get s \<noteq> Inl p))"
  by (simp add: Get_def GetOrDefault_def)

theorem C9_option_get_witness:
  "Get (Some_opt (7::int)) = Inr 7 \<and> GetOrDefault (Some_opt (7::int)) 0 = 7
   \<and> Get (None_opt (0::int)) = Inl (Panic ''Option value is not set.'')
   \<and> GetOrDefault (None_opt (0::int)) 5 = 5"
  using C9_option_get [of "Some_opt (7::int)" 0] C9_option_get [of "None_opt (0::int)" 5]
  by (simp add: Some_opt_def None_opt_def)

end
